theory Spec2Isabelle
  imports Main "HOL-Library.Word"
begin

section \<open>The RTP receiver of rtpreceiver.go\<close>

text \<open>
  The file holds one type, \<open>RTPReceiver\<close>, its constructor and six methods. The model
  is sequential: one call at a time. \<open>Receive\<close> and \<open>Stop\<close> run under \<open>r.mu.Lock()\<close>
  with a deferred \<open>Unlock\<close>, \<open>Track\<close> under \<open>RLock\<close>; each of them returns or panics,
  and the deferred unlock runs either way, so the lock is free between two calls and is
  not a field of the model. \<open>Read\<close> and \<open>readRTP\<close> take no lock. \<open>ReadRTCP\<close>, which
  hands the bytes of \<open>Read\<close> to \<open>rtcp.Unmarshal\<close>, is left out.
\<close>

subsection \<open>Values\<close>

text \<open>
  An \<open>error\<close> is either made in this file by \<open>fmt.Errorf\<close> (its message kept), or handed
  over by a collaborator (opaque, identified by a number).
\<close>

datatype error = Errorf string | CollaboratorError nat

text \<open>
  \<open>closed\<close> and \<open>received\<close> are channels made by \<open>make(chan interface{})\<close> on which nothing
  is ever sent: the only thing that happens to them is \<open>close\<close>. A receive from such a
  channel is ready exactly when the channel is closed; closing a closed channel panics.
\<close>

datatype chan = Open | Closed

definition ready :: "chan \<Rightarrow> bool" where
  "ready c = (c = Closed)"

definition close_chan :: "chan \<Rightarrow> chan option" where
  "close_chan c = (case c of Open \<Rightarrow> Some Closed | Closed \<Rightarrow> None)"

text \<open>
  How a call ends. A collaborator called under the lock replies with its Go result or
  panics (\<open>reply\<close>); a call of this file returns, panics, or blocks for ever in a
  \<open>select\<close> none of whose cases is ready (\<open>outcome\<close>).
\<close>

datatype 'a reply = Reply 'a | Panic

datatype 'a outcome = Returned 'a | Panicked | Blocked

subsection \<open>The types the file uses\<close>

text \<open>
  Their declarations live in other files of the package. The pointer fields of the
  receiver are options (\<open>None\<close> is \<open>nil\<close>); the objects behind them, and the sessions and
  streams that \<open>Receive\<close> hands from one collaborator to the next, are identified by
  numbers. Of \<open>Track\<close> only the three fields that \<open>Receive\<close> sets are kept, of
  \<open>RTPReceiveParameters\<close> only the path \<open>encodings.SSRC\<close> that it reads.
\<close>

type_synonym addr = nat
type_synonym RTPCodecType = int
type_synonym DTLSTransport = nat
type_synonym API = nat
type_synonym SessionSRTP = nat
type_synonym SessionSRTCP = nat
type_synonym bytes = "8 word list"

datatype ReadStream = ReadStreamSRTP nat | ReadStreamSRTCP nat

record RTPDecodingParameters =
  SSRC :: "32 word"

record RTPReceiveParameters =
  encodings :: RTPDecodingParameters

record Track =
  track_kind :: RTPCodecType
  track_ssrc :: "32 word"
  track_receiver :: addr

text \<open>
  Modelled from the spec: \<open>newLossyReadCloser\<close> and the type \<open>lossyReadCloser\<close> are not in
  this file. The spec gives \<open>wrap(ReadStream) -> LossyReader\<close>: the reader is the wrapped
  stream. What its \<open>read\<close> and \<open>close\<close> do is left to the collaborators below.
\<close>

datatype lossyReadCloser = LossyReadCloser ReadStream

definition newLossyReadCloser :: "ReadStream \<Rightarrow> lossyReadCloser" where
  "newLossyReadCloser s = LossyReadCloser s"

record RTPReceiver =
  kind :: RTPCodecType
  transport :: "DTLSTransport option"
  track :: "Track option"
  closed :: chan
  received :: chan
  rtpReadStream :: "lossyReadCloser option"
  rtcpReadStream :: "lossyReadCloser option"
  api :: "API option"

subsection \<open>Collaborators\<close>

text \<open>
  The methods of other files that this file calls, as parameters. A method with a pointer
  receiver is given the pointer as it stands in the field, \<open>nil\<close> included: what the
  method does with \<open>nil\<close> is its own business. \<open>read\<close> is called outside the lock and may
  block; its \<open>(n, err)\<close> is a pair.
\<close>

record collaborators =
  getSRTPSession :: "DTLSTransport option \<Rightarrow> (error + SessionSRTP) reply"
  srtpOpenReadStream :: "SessionSRTP \<Rightarrow> 32 word \<Rightarrow> (error + ReadStream) reply"
  getSRTCPSession :: "DTLSTransport option \<Rightarrow> (error + SessionSRTCP) reply"
  srtcpOpenReadStream :: "SessionSRTCP \<Rightarrow> 32 word \<Rightarrow> (error + ReadStream) reply"
  lossy_read :: "lossyReadCloser option \<Rightarrow> bytes \<Rightarrow> (int \<times> error option) outcome"
  lossy_close :: "lossyReadCloser option \<Rightarrow> error option reply"

text \<open>The calls to collaborators that a call of this file makes, in order.\<close>

datatype call =
    GetSRTPSession "DTLSTransport option"
  | SRTPOpenReadStream SessionSRTP "32 word"
  | GetSRTCPSession "DTLSTransport option"
  | SRTCPOpenReadStream SessionSRTCP "32 word"
  | RtcpReadStreamClose "lossyReadCloser option"
  | RtpReadStreamClose "lossyReadCloser option"

text \<open>
  How a call under the lock ends: its outcome, the receiver as the call leaves it (at a
  panic: as it is when the panic starts), and the calls it has made to collaborators.
\<close>

record 'a exit =
  result :: "'a outcome"
  state :: RTPReceiver
  calls :: "call list"

subsection \<open>NewRTPReceiver, Track\<close>

definition NewRTPReceiver ::
  "API option \<Rightarrow> RTPCodecType \<Rightarrow> DTLSTransport option \<Rightarrow> error + RTPReceiver" where
  "NewRTPReceiver a k t =
     (case t of
        None \<Rightarrow> Inl (Errorf ''DTLSTransport must not be nil'')
      | Some _ \<Rightarrow>
          Inr \<lparr>kind = k, transport = t, track = None, closed = Open, received = Open,
               rtpReadStream = None, rtcpReadStream = None, api = a\<rparr>)"

definition Track :: "RTPReceiver \<Rightarrow> Track option" where
  "Track r = track r"

subsection \<open>Receive\<close>

text \<open>
  \<open>x, err := f(); if err != nil { return err }\<close>: the call ends with the error (or the
  panic) of \<open>f\<close>, or goes on with \<open>x\<close>.
\<close>

definition or_return ::
  "(error + 'a) reply \<Rightarrow> RTPReceiver \<Rightarrow> call list \<Rightarrow> ('a \<Rightarrow> error option exit) \<Rightarrow> error option exit" where
  "or_return rep r cs k =
     (case rep of
        Panic \<Rightarrow> \<lparr>result = Panicked, state = r, calls = cs\<rparr>
      | Reply (Inl err) \<Rightarrow> \<lparr>result = Returned (Some err), state = r, calls = cs\<rparr>
      | Reply (Inr x) \<Rightarrow> k x)"

text \<open>\<open>self\<close> is the pointer \<open>r\<close> of the method, which the track keeps.\<close>

definition Receive ::
  "addr \<Rightarrow> RTPReceiver \<Rightarrow> RTPReceiveParameters \<Rightarrow> collaborators \<Rightarrow> error option exit" where
  "Receive self r parameters E =
     (if ready (received r) then
        \<lparr>result = Returned (Some (Errorf ''Receive has already been called'')),
         state = r, calls = []\<rparr>
      else
        case close_chan (received r) of
          None \<Rightarrow> \<lparr>result = Panicked, state = r, calls = []\<rparr>
        | Some c \<Rightarrow>
            let r1 = r\<lparr>received := c\<rparr>;
                r2 = r1\<lparr>track := Some \<lparr>track_kind = kind r1,
                                       track_ssrc = SSRC (encodings parameters),
                                       track_receiver = self\<rparr>\<rparr>;
                c1 = [GetSRTPSession (transport r2)]
            in or_return (getSRTPSession E (transport r2)) r2 c1 (\<lambda>srtpSession.
                 let c2 = c1 @ [SRTPOpenReadStream srtpSession (SSRC (encodings parameters))]
                 in or_return (srtpOpenReadStream E srtpSession (SSRC (encodings parameters))) r2 c2
                      (\<lambda>srtpReadStream.
                 let c3 = c2 @ [GetSRTCPSession (transport r2)]
                 in or_return (getSRTCPSession E (transport r2)) r2 c3 (\<lambda>srtcpSession.
                 let c4 = c3 @ [SRTCPOpenReadStream srtcpSession (SSRC (encodings parameters))]
                 in or_return (srtcpOpenReadStream E srtcpSession (SSRC (encodings parameters))) r2 c4
                      (\<lambda>srtcpReadStream.
                 \<lparr>result = Returned None,
                  state = r2\<lparr>rtpReadStream := Some (newLossyReadCloser srtpReadStream),
                             rtcpReadStream := Some (newLossyReadCloser srtcpReadStream)\<rparr>,
                  calls = c4\<rparr>)))))"

subsection \<open>Read, readRTP\<close>

text \<open>
  A \<open>select\<close> with two receive cases and no \<open>default\<close>: it blocks while neither channel
  is ready, takes the ready case when one is, and when both are Go picks one of them by
  a uniform pseudo-random choice. The choice is the parameter \<open>pick\<close>.
\<close>

datatype select_case = FirstCase | SecondCase

definition select2 :: "select_case \<Rightarrow> chan \<Rightarrow> chan \<Rightarrow> select_case option" where
  "select2 pick c1 c2 =
     (if ready c1 \<and> ready c2 then Some pick
      else if ready c1 then Some FirstCase
      else if ready c2 then Some SecondCase
      else None)"

definition Read ::
  "RTPReceiver \<Rightarrow> collaborators \<Rightarrow> select_case \<Rightarrow> bytes \<Rightarrow> (int \<times> error option) outcome" where
  "Read r E pick b =
     (case select2 pick (closed r) (received r) of
        None \<Rightarrow> Blocked
      | Some FirstCase \<Rightarrow> Returned (0, Some (Errorf ''RTPSender has been stopped''))
      | Some SecondCase \<Rightarrow> lossy_read E (rtcpReadStream r) b)"

definition readRTP ::
  "RTPReceiver \<Rightarrow> collaborators \<Rightarrow> select_case \<Rightarrow> bytes \<Rightarrow> (int \<times> error option) outcome" where
  "readRTP r E pick b =
     (case select2 pick (closed r) (received r) of
        None \<Rightarrow> Blocked
      | Some FirstCase \<Rightarrow> Returned (0, Some (Errorf ''RTPSender has been stopped''))
      | Some SecondCase \<Rightarrow> lossy_read E (rtpReadStream r) b)"

subsection \<open>Stop\<close>

text \<open>The end of \<open>Stop\<close>: \<open>close(r.closed); return nil\<close>.\<close>

definition close_and_return :: "RTPReceiver \<Rightarrow> call list \<Rightarrow> error option exit" where
  "close_and_return r cs =
     (case close_chan (closed r) of
        None \<Rightarrow> \<lparr>result = Panicked, state = r, calls = cs\<rparr>
      | Some c \<Rightarrow> \<lparr>result = Returned None, state = r\<lparr>closed := c\<rparr>, calls = cs\<rparr>)"

definition Stop :: "RTPReceiver \<Rightarrow> collaborators \<Rightarrow> error option exit" where
  "Stop r E =
     (if ready (closed r) then \<lparr>result = Returned None, state = r, calls = []\<rparr>
      else if ready (received r) then
        let c1 = [RtcpReadStreamClose (rtcpReadStream r)]
        in case lossy_close E (rtcpReadStream r) of
             Panic \<Rightarrow> \<lparr>result = Panicked, state = r, calls = c1\<rparr>
           | Reply (Some err) \<Rightarrow> \<lparr>result = Returned (Some err), state = r, calls = c1\<rparr>
           | Reply None \<Rightarrow>
               let c2 = c1 @ [RtpReadStreamClose (rtpReadStream r)]
               in (case lossy_close E (rtpReadStream r) of
                     Panic \<Rightarrow> \<lparr>result = Panicked, state = r, calls = c2\<rparr>
                   | Reply (Some err) \<Rightarrow> \<lparr>result = Returned (Some err), state = r, calls = c2\<rparr>
                   | Reply None \<Rightarrow> close_and_return r c2)
      else close_and_return r [])"

subsection \<open>Runs of calls\<close>

text \<open>
  A call on a receiver, with what the collaborators and the \<open>select\<close> do during it, and
  the receiver it leaves. \<open>Read\<close>, \<open>readRTP\<close> and \<open>Track\<close> write no field.
\<close>

datatype invocation =
    CallReceive addr RTPReceiveParameters collaborators
  | CallStop collaborators
  | CallRead collaborators select_case bytes
  | CallReadRTP collaborators select_case bytes
  | CallTrack

fun leaves :: "invocation \<Rightarrow> RTPReceiver \<Rightarrow> RTPReceiver" where
  "leaves (CallReceive self p E) r = state (Receive self r p E)"
| "leaves (CallStop E) r = state (Stop r E)"
| "leaves (CallRead E pick b) r = r"
| "leaves (CallReadRTP E pick b) r = r"
| "leaves CallTrack r = r"

fun run :: "invocation list \<Rightarrow> RTPReceiver \<Rightarrow> RTPReceiver" where
  "run [] r = r"
| "run (i # is) r = run is (leaves i r)"

text \<open>
  Whether a call is a \<open>Receive\<close> that returns \<open>nil\<close> on the receiver it finds, and whether
  some call of a run is.
\<close>

fun receive_succeeds :: "invocation \<Rightarrow> RTPReceiver \<Rightarrow> bool" where
  "receive_succeeds (CallReceive self p E) r = (result (Receive self r p E) = Returned None)"
| "receive_succeeds (CallStop E) r = False"
| "receive_succeeds (CallRead E pick b) r = False"
| "receive_succeeds (CallReadRTP E pick b) r = False"
| "receive_succeeds CallTrack r = False"

fun activated_in :: "invocation list \<Rightarrow> RTPReceiver \<Rightarrow> bool" where
  "activated_in [] r = False"
| "activated_in (i # is) r = (receive_succeeds i r \<or> activated_in is (leaves i r))"

subsection \<open>Concrete receivers and collaborators\<close>

text \<open>
  The inputs at which the theorems below are evaluated: a receiver as \<open>NewRTPReceiver\<close>
  makes it, the same receiver after a \<open>Receive\<close> that went well, and collaborators that
  all answer well, or fail at one place.
\<close>

definition demo_parameters :: RTPReceiveParameters where
  "demo_parameters = \<lparr>encodings = \<lparr>SSRC = 12345\<rparr>\<rparr>"

definition fresh :: RTPReceiver where
  "fresh = \<lparr>kind = 1, transport = Some 7, track = None, closed = Open, received = Open,
            rtpReadStream = None, rtcpReadStream = None, api = Some 0\<rparr>"

definition all_well :: collaborators where
  "all_well =
     \<lparr>getSRTPSession = (\<lambda>t. Reply (Inr 1)),
      srtpOpenReadStream = (\<lambda>s i. Reply (Inr (ReadStreamSRTP 1))),
      getSRTCPSession = (\<lambda>t. Reply (Inr 2)),
      srtcpOpenReadStream = (\<lambda>s i. Reply (Inr (ReadStreamSRTCP 2))),
      lossy_read = (\<lambda>l b. Returned (4, None)),
      lossy_close = (\<lambda>l. Reply None)\<rparr>"

definition no_session :: collaborators where
  "no_session = all_well\<lparr>getSRTPSession := (\<lambda>t. Reply (Inl (CollaboratorError 1)))\<rparr>"

definition no_stream :: collaborators where
  "no_stream = all_well\<lparr>srtcpOpenReadStream := (\<lambda>s i. Reply (Inl (CollaboratorError 2)))\<rparr>"

definition activated :: RTPReceiver where
  "activated =
     \<lparr>kind = 1, transport = Some 7,
      track = Some \<lparr>track_kind = 1, track_ssrc = 12345, track_receiver = 0\<rparr>,
      closed = Open, received = Closed,
      rtpReadStream = Some (LossyReadCloser (ReadStreamSRTP 1)),
      rtcpReadStream = Some (LossyReadCloser (ReadStreamSRTCP 2)), api = Some 0\<rparr>"

definition close_fails :: collaborators where
  "close_fails = all_well\<lparr>lossy_close := (\<lambda>l. Reply (Some (CollaboratorError 3)))\<rparr>"

definition media_close_fails :: collaborators where
  "media_close_fails =
     all_well\<lparr>lossy_close :=
       (\<lambda>l. if l = Some (LossyReadCloser (ReadStreamSRTP 1))
            then Reply (Some (CollaboratorError 5)) else Reply None)\<rparr>"

definition reader_closed :: collaborators where
  "reader_closed = all_well\<lparr>lossy_read := (\<lambda>l b. Returned (0, Some (CollaboratorError 4)))\<rparr>"

definition stopped :: RTPReceiver where
  "stopped = activated\<lparr>closed := Closed\<rparr>"

definition never_activated_stopped :: RTPReceiver where
  "never_activated_stopped = fresh\<lparr>closed := Closed\<rparr>"

subsection \<open>What holds of the handle and the readers\<close>

text \<open>
  The two readers are set together, the track is set exactly when \<open>received\<close> is closed,
  and there are readers only where there is a track.
\<close>

definition lifecycle_inv :: "RTPReceiver \<Rightarrow> bool" where
  "lifecycle_inv r =
     ((rtpReadStream r = None) = (rtcpReadStream r = None) \<and>
      (track r = None) = (received r = Open) \<and>
      (rtpReadStream r = None \<or> track r \<noteq> None))"

section \<open>Properties\<close>

lemmas demo_defs =
  demo_parameters_def fresh_def all_well_def no_session_def no_stream_def activated_def
  close_fails_def media_close_fails_def reader_closed_def stopped_def
  never_activated_stopped_def

lemmas model_defs =
  Receive_def or_return_def Stop_def close_and_return_def ready_def close_chan_def
  newLossyReadCloser_def Read_def readRTP_def select2_def Track_def NewRTPReceiver_def Let_def

subsection \<open>The concrete inputs are what the code makes\<close>

lemma new_fresh: "NewRTPReceiver (Some 0) 1 (Some 7) = Inr fresh"
  by (simp add: model_defs demo_defs)

lemma receive_fresh:
  "Receive 0 fresh demo_parameters all_well =
     \<lparr>result = Returned None, state = activated,
      calls = [GetSRTPSession (Some 7), SRTPOpenReadStream 1 12345,
               GetSRTCPSession (Some 7), SRTCPOpenReadStream 2 12345]\<rparr>"
  by (simp add: model_defs demo_defs)

subsection \<open>The two gates only ever close\<close>

lemma Receive_gate: "received (state (Receive self r p E)) = Closed"
  by (cases "received r")
     (simp_all add: Receive_def ready_def close_chan_def or_return_def Let_def
        split: reply.splits sum.splits)

lemma Receive_keeps_closed: "closed (state (Receive self r p E)) = closed r"
  by (cases "received r")
     (simp_all add: Receive_def ready_def close_chan_def or_return_def Let_def
        split: reply.splits sum.splits)

lemma Receive_again:
  "received r = Closed \<Longrightarrow>
   Receive self r p E =
     \<lparr>result = Returned (Some (Errorf ''Receive has already been called'')),
      state = r, calls = []\<rparr>"
  by (simp add: Receive_def ready_def)

lemma Stop_keeps_received: "received (state (Stop r E)) = received r"
  by (cases "closed r")
     (simp_all add: Stop_def ready_def close_chan_def close_and_return_def Let_def
        split: reply.splits option.splits)

lemma Stop_keeps_track: "track (state (Stop r E)) = track r"
  by (cases "closed r")
     (simp_all add: Stop_def ready_def close_chan_def close_and_return_def Let_def
        split: reply.splits option.splits)

lemma Stop_again:
  "closed r = Closed \<Longrightarrow> Stop r E = \<lparr>result = Returned None, state = r, calls = []\<rparr>"
  by (simp add: Stop_def ready_def)

lemma Stop_success_closes:
  "result (Stop r E) = Returned None \<Longrightarrow> closed (state (Stop r E)) = Closed"
  by (cases "closed r")
     (simp_all add: Stop_def ready_def close_chan_def close_and_return_def Let_def
        split: reply.splits option.splits if_splits)

lemma leaves_received: "received r = Closed \<Longrightarrow> received (leaves i r) = Closed"
  by (cases i) (simp_all add: Receive_gate Stop_keeps_received)

lemma leaves_closed: "closed r = Closed \<Longrightarrow> closed (leaves i r) = Closed"
  by (cases i) (simp_all add: Receive_keeps_closed Stop_again)

lemma run_received: "received r = Closed \<Longrightarrow> received (run is r) = Closed"
  by (induction "is" arbitrary: r) (simp_all add: leaves_received)

lemma run_closed: "closed r = Closed \<Longrightarrow> closed (run is r) = Closed"
  by (induction "is" arbitrary: r) (simp_all add: leaves_closed)

subsection \<open>Stop writes the field closed and no other\<close>

lemma Stop_writes_closed_only: "state (Stop r E) = r\<lparr>closed := closed (state (Stop r E))\<rparr>"
  by (cases "closed r")
     (simp_all add: Stop_def ready_def close_chan_def close_and_return_def Let_def
        split: reply.splits option.splits)

lemma Stop_keeps_readers:
  "rtpReadStream (state (Stop r E)) = rtpReadStream r \<and>
   rtcpReadStream (state (Stop r E)) = rtcpReadStream r"
proof -
  have "rtpReadStream (r\<lparr>closed := c\<rparr>) = rtpReadStream r \<and>
        rtcpReadStream (r\<lparr>closed := c\<rparr>) = rtcpReadStream r" for c
    by simp
  then show ?thesis
    using Stop_writes_closed_only [of r E] by metis
qed

subsection \<open>The invariant holds of every receiver that calls can make\<close>

lemma lifecycle_inv_new: "NewRTPReceiver a k t = Inr r \<Longrightarrow> lifecycle_inv r"
  by (auto simp add: NewRTPReceiver_def lifecycle_inv_def split: option.splits)

lemma lifecycle_inv_Receive: "lifecycle_inv r \<Longrightarrow> lifecycle_inv (state (Receive self r p E))"
  by (cases "received r")
     (simp_all add: lifecycle_inv_def Receive_def ready_def close_chan_def or_return_def
        Let_def split: reply.splits sum.splits)

lemma lifecycle_inv_Stop: "lifecycle_inv (state (Stop r E)) = lifecycle_inv r"
  unfolding lifecycle_inv_def
  by (simp only: Stop_keeps_readers Stop_keeps_track Stop_keeps_received)

lemma lifecycle_inv_leaves: "lifecycle_inv r \<Longrightarrow> lifecycle_inv (leaves i r)"
  by (cases i) (simp_all add: lifecycle_inv_Receive lifecycle_inv_Stop)

lemma lifecycle_inv_run: "lifecycle_inv r \<Longrightarrow> lifecycle_inv (run is r)"
  by (induction "is" arbitrary: r) (simp_all add: lifecycle_inv_leaves)

subsection \<open>The readers are there exactly after a Receive that returned nil\<close>

lemma Receive_from_open:
  "received r = Open \<Longrightarrow>
   received (state (Receive self r p E)) = Closed \<and>
   track (state (Receive self r p E)) =
     Some \<lparr>track_kind = kind r, track_ssrc = SSRC (encodings p), track_receiver = self\<rparr>"
  by (simp add: Receive_def ready_def close_chan_def or_return_def Let_def
        split: reply.splits sum.splits)

lemma Receive_success_readers:
  "result (Receive self r p E) = Returned None \<Longrightarrow>
   rtpReadStream (state (Receive self r p E)) \<noteq> None \<and>
   rtcpReadStream (state (Receive self r p E)) \<noteq> None"
  by (cases "received r")
     (auto simp add: Receive_def ready_def close_chan_def or_return_def Let_def
        split: reply.splits sum.splits)

lemma Receive_failure_readers:
  "result (Receive self r p E) \<noteq> Returned None \<Longrightarrow>
   rtpReadStream (state (Receive self r p E)) = rtpReadStream r \<and>
   rtcpReadStream (state (Receive self r p E)) = rtcpReadStream r"
  by (cases "received r")
     (auto simp add: Receive_def ready_def close_chan_def or_return_def Let_def
        split: reply.splits sum.splits)

lemma leaves_readers:
  "(rtpReadStream (leaves i r) = None) = (rtpReadStream r = None \<and> \<not> receive_succeeds i r) \<and>
   (rtcpReadStream (leaves i r) = None) = (rtcpReadStream r = None \<and> \<not> receive_succeeds i r)"
proof (cases i)
  case (CallReceive self p E)
  show ?thesis
  proof (cases "result (Receive self r p E) = Returned None")
    case True
    then show ?thesis
      using Receive_success_readers [of self r p E] CallReceive by simp
  next
    case False
    then show ?thesis
      using Receive_failure_readers [of self r p E] CallReceive by simp
  qed
next
  case (CallStop E)
  then show ?thesis by (simp add: Stop_keeps_readers)
qed simp_all

lemma run_readers:
  "(rtpReadStream (run is r) = None) = (rtpReadStream r = None \<and> \<not> activated_in is r) \<and>
   (rtcpReadStream (run is r) = None) = (rtcpReadStream r = None \<and> \<not> activated_in is r)"
proof (induction "is" arbitrary: r)
  case Nil
  show ?case by simp
next
  case (Cons i "is")
  show ?case
    using Cons.IH [of "leaves i r"] leaves_readers [of i r] by auto
qed

lemma new_no_readers:
  "NewRTPReceiver a k t = Inr r \<Longrightarrow> rtpReadStream r = None \<and> rtcpReadStream r = None"
  by (auto simp add: NewRTPReceiver_def split: option.splits)

lemma Receive_readers_from_none:
  "rtpReadStream r = None \<Longrightarrow> rtcpReadStream r = None \<Longrightarrow>
   (rtpReadStream (state (Receive self r p E)) = None) =
     (result (Receive self r p E) \<noteq> Returned None) \<and>
   (rtcpReadStream (state (Receive self r p E)) = None) =
     (result (Receive self r p E) \<noteq> Returned None)"
  using Receive_success_readers [of self r p E] Receive_failure_readers [of self r p E]
  by (cases "result (Receive self r p E) = Returned None") simp_all

subsection \<open>Receive\<close>

text \<open>
  C1. Activation is one-shot. Take any receiver \<open>r\<close> and any first call of \<open>Receive\<close> on it,
  whatever the collaborators answer during it (so whether it succeeds or fails), then any
  run \<open>is\<close> of further calls of any method: a later call of \<open>Receive\<close> returns the error
  \<open>Receive has already been called\<close>, calls no collaborator and writes no field.
\<close>

theorem Receive_one_shot:
  "Receive self' (run is (state (Receive self r p E))) p' E' =
     \<lparr>result = Returned (Some (Errorf ''Receive has already been called'')),
      state = run is (state (Receive self r p E)), calls = []\<rparr>"
  by (rule Receive_again) (rule run_received, rule Receive_gate)

text \<open>
  At a first call that succeeds followed by a \<open>Stop\<close>, and at a first call that fails for
  want of a session.
\<close>

theorem Receive_one_shot_witness:
  "result (Receive 0 fresh demo_parameters all_well) = Returned None \<and>
   result (Receive 0 (run [CallStop all_well] (state (Receive 0 fresh demo_parameters all_well)))
      demo_parameters all_well) = Returned (Some (Errorf ''Receive has already been called'')) \<and>
   result (Receive 0 fresh demo_parameters no_session) = Returned (Some (CollaboratorError 1)) \<and>
   result (Receive 0 (run [] (state (Receive 0 fresh demo_parameters no_session)))
      demo_parameters all_well) = Returned (Some (Errorf ''Receive has already been called''))"
  using Receive_one_shot [of 0 "[CallStop all_well]" 0 fresh demo_parameters all_well
      demo_parameters all_well]
    Receive_one_shot [of 0 "[]" 0 fresh demo_parameters no_session demo_parameters all_well]
  by (simp add: model_defs demo_defs)

text \<open>
  C2. \<open>Receive\<close> closes \<open>received\<close> before the rest of its work: in the receiver that a
  call leaves, however the call ends (an error or a panic at any of the four calls to
  the transport and the sessions included), \<open>received\<close> is closed. It stays closed through
  any run \<open>is\<close> of further calls, and no later \<open>Receive\<close> returns success.
\<close>

theorem Receive_closes_gate_first:
  "received (state (Receive self r p E)) = Closed \<and>
   received (run is (state (Receive self r p E))) = Closed \<and>
   result (Receive self' (run is (state (Receive self r p E))) p' E') \<noteq> Returned None"
proof -
  have g: "received (state (Receive self r p E)) = Closed"
    by (rule Receive_gate)
  have h: "received (run is (state (Receive self r p E))) = Closed"
    using g by (rule run_received)
  show ?thesis
    using g h by (simp add: Receive_again)
qed

text \<open>At a call that finds no session, and at one whose second stream does not open.\<close>

theorem Receive_closes_gate_first_witness:
  "result (Receive 0 fresh demo_parameters no_session) = Returned (Some (CollaboratorError 1)) \<and>
   calls (Receive 0 fresh demo_parameters no_session) = [GetSRTPSession (Some 7)] \<and>
   received (state (Receive 0 fresh demo_parameters no_session)) = Closed \<and>
   result (Receive 0 fresh demo_parameters no_stream) = Returned (Some (CollaboratorError 2)) \<and>
   received (run [CallStop all_well] (state (Receive 0 fresh demo_parameters no_stream))) = Closed \<and>
   result (Receive 0 (run [CallStop all_well] (state (Receive 0 fresh demo_parameters no_stream)))
     demo_parameters all_well) \<noteq> Returned None"
  using Receive_closes_gate_first [of 0 fresh demo_parameters no_session "[]" 0 demo_parameters all_well]
    Receive_closes_gate_first [of 0 fresh demo_parameters no_stream "[CallStop all_well]" 0
      demo_parameters all_well]
  by (simp add: model_defs demo_defs)

text \<open>
  C9. After a \<open>Receive\<close> on a receiver not yet activated that returns an error (which is
  then the error of a session or of a stream), \<open>Track\<close> returns the handle made before
  the failing step: the receiver's kind, the SSRC of the parameters and the pointer to
  the receiver.
\<close>

theorem Track_after_failed_Receive:
  "received r = Open \<Longrightarrow> result (Receive self r p E) = Returned (Some e) \<Longrightarrow>
   Track (state (Receive self r p E)) =
     Some \<lparr>track_kind = kind r, track_ssrc = SSRC (encodings p), track_receiver = self\<rparr>"
  by (simp add: Track_def Receive_def ready_def close_chan_def or_return_def Let_def
        split: reply.splits sum.splits)

theorem Track_after_failed_Receive_witness:
  "received fresh = Open \<and>
   result (Receive 3 fresh demo_parameters no_session) = Returned (Some (CollaboratorError 1)) \<and>
   Track (state (Receive 3 fresh demo_parameters no_session)) =
     Some \<lparr>track_kind = 1, track_ssrc = 12345, track_receiver = 3\<rparr> \<and>
   result (Receive 3 fresh demo_parameters no_stream) = Returned (Some (CollaboratorError 2)) \<and>
   Track (state (Receive 3 fresh demo_parameters no_stream)) =
     Some \<lparr>track_kind = 1, track_ssrc = 12345, track_receiver = 3\<rparr>"
  using Track_after_failed_Receive [of fresh 3 demo_parameters no_session "CollaboratorError 1"]
    Track_after_failed_Receive [of fresh 3 demo_parameters no_stream "CollaboratorError 2"]
  by (simp add: model_defs demo_defs)

subsection \<open>The handle and the readers\<close>

text \<open>
  C3, as the spec has it, fails: the track, the media reader and the control reader are
  not all absent or all present. A receiver made by \<open>NewRTPReceiver\<close> whose \<open>Receive\<close>
  finds no session has its track set and neither reader.
\<close>

theorem track_without_readers_counterexample:
  "NewRTPReceiver (Some 0) 1 (Some 7) = Inr fresh \<and>
   result (Receive 0 fresh demo_parameters no_session) = Returned (Some (CollaboratorError 1)) \<and>
   track (run [CallReceive 0 demo_parameters no_session] fresh) =
     Some \<lparr>track_kind = 1, track_ssrc = 12345, track_receiver = 0\<rparr> \<and>
   rtpReadStream (run [CallReceive 0 demo_parameters no_session] fresh) = None \<and>
   rtcpReadStream (run [CallReceive 0 demo_parameters no_session] fresh) = None"
  by (simp add: model_defs demo_defs)

text \<open>
  C3, amended. In every receiver that a run \<open>is\<close> of calls makes from one that
  \<open>NewRTPReceiver\<close> returned: the media reader and the control reader are both absent or
  both present; the track is present exactly when \<open>received\<close> is closed; where the readers
  are present the track is; and the readers are present exactly when some \<open>Receive\<close> of
  the run returned \<open>nil\<close>. A \<open>Receive\<close> on such a receiver with \<open>received\<close> still open
  closes \<open>received\<close> and sets the track (kind, SSRC, pointer to the receiver) however it
  ends, and leaves both readers absent unless it returns \<open>nil\<close>, when both are present: so
  after a \<open>Receive\<close> that fails at a session or a stream the track is present and both
  readers are absent.
\<close>

theorem readers_together_track_with_gate:
  "NewRTPReceiver a k t = Inr r0 \<Longrightarrow>
   (rtpReadStream (run is r0) = None) = (rtcpReadStream (run is r0) = None) \<and>
   (track (run is r0) = None) = (received (run is r0) = Open) \<and>
   (rtpReadStream (run is r0) = None \<or> track (run is r0) \<noteq> None) \<and>
   (rtpReadStream (run is r0) = None) = (\<not> activated_in is r0) \<and>
   (rtcpReadStream (run is r0) = None) = (\<not> activated_in is r0) \<and>
   (received (run is r0) = Open \<longrightarrow>
      received (state (Receive self (run is r0) p E)) = Closed \<and>
      track (state (Receive self (run is r0) p E)) =
        Some \<lparr>track_kind = kind (run is r0), track_ssrc = SSRC (encodings p),
              track_receiver = self\<rparr> \<and>
      (rtpReadStream (state (Receive self (run is r0) p E)) = None) =
        (result (Receive self (run is r0) p E) \<noteq> Returned None) \<and>
      (rtcpReadStream (state (Receive self (run is r0) p E)) = None) =
        (result (Receive self (run is r0) p E) \<noteq> Returned None))"
proof -
  assume new: "NewRTPReceiver a k t = Inr r0"
  have inv: "lifecycle_inv (run is r0)"
    using new by (intro lifecycle_inv_run lifecycle_inv_new)
  have rd: "(rtpReadStream (run is r0) = None) = (\<not> activated_in is r0) \<and>
            (rtcpReadStream (run is r0) = None) = (\<not> activated_in is r0)"
    using run_readers [of "is" r0] new_no_readers [OF new] by simp
  have step: "received (run is r0) = Open \<longrightarrow>
      received (state (Receive self (run is r0) p E)) = Closed \<and>
      track (state (Receive self (run is r0) p E)) =
        Some \<lparr>track_kind = kind (run is r0), track_ssrc = SSRC (encodings p),
              track_receiver = self\<rparr> \<and>
      (rtpReadStream (state (Receive self (run is r0) p E)) = None) =
        (result (Receive self (run is r0) p E) \<noteq> Returned None) \<and>
      (rtcpReadStream (state (Receive self (run is r0) p E)) = None) =
        (result (Receive self (run is r0) p E) \<noteq> Returned None)"
  proof
    assume op: "received (run is r0) = Open"
    have none: "rtpReadStream (run is r0) = None \<and> rtcpReadStream (run is r0) = None"
      using inv op unfolding lifecycle_inv_def by auto
    show "received (state (Receive self (run is r0) p E)) = Closed \<and>
      track (state (Receive self (run is r0) p E)) =
        Some \<lparr>track_kind = kind (run is r0), track_ssrc = SSRC (encodings p),
              track_receiver = self\<rparr> \<and>
      (rtpReadStream (state (Receive self (run is r0) p E)) = None) =
        (result (Receive self (run is r0) p E) \<noteq> Returned None) \<and>
      (rtcpReadStream (state (Receive self (run is r0) p E)) = None) =
        (result (Receive self (run is r0) p E) \<noteq> Returned None)"
      using Receive_from_open [OF op, of self p E]
        Receive_readers_from_none [of "run is r0" self p E] none
      by simp
  qed
  show ?thesis
    using inv rd step unfolding lifecycle_inv_def by blast
qed

text \<open>
  At a first \<open>Receive\<close> whose second stream does not open, at a run of that \<open>Receive\<close> and
  a \<open>Stop\<close>, and at a \<open>Receive\<close> that goes well.
\<close>

theorem readers_together_track_with_gate_witness:
  "NewRTPReceiver (Some 0) 1 (Some 7) = Inr fresh \<and>
   received (run [] fresh) = Open \<and>
   result (Receive 0 (run [] fresh) demo_parameters no_stream) =
     Returned (Some (CollaboratorError 2)) \<and>
   track (state (Receive 0 (run [] fresh) demo_parameters no_stream)) =
     Some \<lparr>track_kind = 1, track_ssrc = 12345, track_receiver = 0\<rparr> \<and>
   rtpReadStream (state (Receive 0 (run [] fresh) demo_parameters no_stream)) = None \<and>
   rtcpReadStream (state (Receive 0 (run [] fresh) demo_parameters no_stream)) = None \<and>
   activated_in [CallReceive 0 demo_parameters no_stream, CallStop all_well] fresh = False \<and>
   rtpReadStream (run [CallReceive 0 demo_parameters no_stream, CallStop all_well] fresh) = None \<and>
   activated_in [CallReceive 0 demo_parameters all_well] fresh = True \<and>
   rtpReadStream (run [CallReceive 0 demo_parameters all_well] fresh) =
     Some (LossyReadCloser (ReadStreamSRTP 1)) \<and>
   rtcpReadStream (run [CallReceive 0 demo_parameters all_well] fresh) =
     Some (LossyReadCloser (ReadStreamSRTCP 2)) \<and>
   track (run [CallReceive 0 demo_parameters all_well] fresh) =
     Some \<lparr>track_kind = 1, track_ssrc = 12345, track_receiver = 0\<rparr> \<and>
   received (run [CallReceive 0 demo_parameters all_well] fresh) = Closed"
  using readers_together_track_with_gate [OF new_fresh, of "[]" 0 demo_parameters no_stream]
    readers_together_track_with_gate [OF new_fresh,
      of "[CallReceive 0 demo_parameters no_stream, CallStop all_well]" 0 demo_parameters all_well]
    readers_together_track_with_gate [OF new_fresh,
      of "[CallReceive 0 demo_parameters all_well]" 0 demo_parameters all_well]
  by (simp add: model_defs demo_defs)

subsection \<open>Read and readRTP\<close>

text \<open>
  C4. For \<open>Read\<close> and \<open>readRTP\<close> alike, whatever the \<open>select\<close> would pick: with \<open>closed\<close>
  closed and \<open>received\<close> open the call returns zero bytes and the error
  \<open>RTPSender has been stopped\<close>; with \<open>received\<close> closed and \<open>closed\<close> open the call is the
  call of \<open>read\<close> on \<open>rtcpReadStream\<close> (for \<open>Read\<close>) or on \<open>rtpReadStream\<close> (for \<open>readRTP\<close>),
  and ends as that call ends, with its byte count and error.
\<close>

theorem Read_follows_the_ready_gate:
  "(closed r = Closed \<and> received r = Open \<longrightarrow>
      Read r E pick b = Returned (0, Some (Errorf ''RTPSender has been stopped'')) \<and>
      readRTP r E pick b = Returned (0, Some (Errorf ''RTPSender has been stopped''))) \<and>
   (received r = Closed \<and> closed r = Open \<longrightarrow>
      Read r E pick b = lossy_read E (rtcpReadStream r) b \<and>
      readRTP r E pick b = lossy_read E (rtpReadStream r) b)"
  by (simp add: Read_def readRTP_def select2_def ready_def)

theorem Read_follows_the_ready_gate_witness:
  "closed never_activated_stopped = Closed \<and> received never_activated_stopped = Open \<and>
   Read never_activated_stopped all_well SecondCase [1, 2] =
     Returned (0, Some (Errorf ''RTPSender has been stopped'')) \<and>
   readRTP never_activated_stopped all_well SecondCase [1, 2] =
     Returned (0, Some (Errorf ''RTPSender has been stopped'')) \<and>
   received activated = Closed \<and> closed activated = Open \<and>
   Read activated all_well FirstCase [1, 2] = Returned (4, None) \<and>
   readRTP activated reader_closed FirstCase [1, 2] = Returned (0, Some (CollaboratorError 4))"
  using Read_follows_the_ready_gate [of never_activated_stopped all_well SecondCase "[1, 2]"]
    Read_follows_the_ready_gate [of activated all_well FirstCase "[1, 2]"]
    Read_follows_the_ready_gate [of activated reader_closed FirstCase "[1, 2]"]
  by (simp add: demo_defs)

text \<open>
  C5, as the spec has it, fails: after a \<open>Receive\<close> and a \<open>Stop\<close> that both returned
  success, both channels are closed, both cases of the \<open>select\<close> are ready, and where Go
  picks the second the call is the reader's: \<open>Read\<close> and \<open>readRTP\<close> return what the closed
  reader returns, here an error of its own, not \<open>RTPSender has been stopped\<close>.
\<close>

theorem Read_after_Stop_counterexample:
  "result (Receive 0 fresh demo_parameters all_well) = Returned None \<and>
   result (Stop (state (Receive 0 fresh demo_parameters all_well)) all_well) = Returned None \<and>
   Read (state (Stop (state (Receive 0 fresh demo_parameters all_well)) all_well))
     reader_closed SecondCase [] = Returned (0, Some (CollaboratorError 4)) \<and>
   Read (state (Stop (state (Receive 0 fresh demo_parameters all_well)) all_well))
     reader_closed SecondCase [] \<noteq> Returned (0, Some (Errorf ''RTPSender has been stopped'')) \<and>
   readRTP (state (Stop (state (Receive 0 fresh demo_parameters all_well)) all_well))
     reader_closed SecondCase [] = Returned (0, Some (CollaboratorError 4))"
  by (simp add: model_defs demo_defs)

text \<open>
  C5, amended. After a \<open>Stop\<close> that returned success and any run \<open>is\<close> of further calls,
  the \<open>select\<close> of a read never blocks. The call returns zero bytes and the error
  \<open>RTPSender has been stopped\<close>, unless \<open>received\<close> is closed too and the \<open>select\<close> picks
  its case: then the call is the call of \<open>read\<close> on the reader of that method.
\<close>

theorem Read_after_Stop:
  "result (Stop r E) = Returned None \<Longrightarrow>
   Read (run is (state (Stop r E))) E' pick b =
     (if received (run is (state (Stop r E))) = Closed \<and> pick = SecondCase
      then lossy_read E' (rtcpReadStream (run is (state (Stop r E)))) b
      else Returned (0, Some (Errorf ''RTPSender has been stopped''))) \<and>
   readRTP (run is (state (Stop r E))) E' pick b =
     (if received (run is (state (Stop r E))) = Closed \<and> pick = SecondCase
      then lossy_read E' (rtpReadStream (run is (state (Stop r E)))) b
      else Returned (0, Some (Errorf ''RTPSender has been stopped'')))"
proof -
  assume "result (Stop r E) = Returned None"
  then have "closed (state (Stop r E)) = Closed"
    by (rule Stop_success_closes)
  then have c: "closed (run is (state (Stop r E))) = Closed"
    by (rule run_closed)
  show ?thesis
    by (cases pick; cases "received (run is (state (Stop r E)))")
       (simp_all add: Read_def readRTP_def select2_def ready_def c)
qed

theorem Read_after_Stop_witness:
  "result (Stop activated all_well) = Returned None \<and>
   Read (run [] (state (Stop activated all_well))) reader_closed FirstCase [] =
     Returned (0, Some (Errorf ''RTPSender has been stopped'')) \<and>
   Read (run [] (state (Stop activated all_well))) reader_closed SecondCase [] =
     Returned (0, Some (CollaboratorError 4)) \<and>
   result (Stop fresh all_well) = Returned None \<and>
   readRTP (run [CallReceive 0 demo_parameters all_well] (state (Stop fresh all_well)))
     all_well FirstCase [] = Returned (0, Some (Errorf ''RTPSender has been stopped''))"
  using Read_after_Stop [of activated all_well "[]" reader_closed FirstCase "[]"]
    Read_after_Stop [of activated all_well "[]" reader_closed SecondCase "[]"]
    Read_after_Stop [of fresh all_well "[CallReceive 0 demo_parameters all_well]" all_well
      FirstCase "[]"]
  by (simp add: model_defs demo_defs)

subsection \<open>Stop\<close>

text \<open>
  C6. After a \<open>Stop\<close> that returned success and any run \<open>is\<close> of further calls, a \<open>Stop\<close>
  returns success, calls \<open>close\<close> on no reader and leaves the receiver as it found it.
\<close>

theorem Stop_idempotent:
  "result (Stop r E) = Returned None \<Longrightarrow>
   Stop (run is (state (Stop r E))) E' =
     \<lparr>result = Returned None, state = run is (state (Stop r E)), calls = []\<rparr>"
  by (rule Stop_again) (rule run_closed, rule Stop_success_closes)

theorem Stop_idempotent_witness:
  "result (Stop activated all_well) = Returned None \<and>
   calls (Stop activated all_well) =
     [RtcpReadStreamClose (Some (LossyReadCloser (ReadStreamSRTCP 2))),
      RtpReadStreamClose (Some (LossyReadCloser (ReadStreamSRTP 1)))] \<and>
   Stop (run [CallStop close_fails] (state (Stop activated all_well))) close_fails =
     \<lparr>result = Returned None, state = stopped, calls = []\<rparr>"
  using Stop_idempotent [of activated all_well "[CallStop close_fails]" close_fails]
  by (simp add: model_defs demo_defs)

text \<open>
  C7, as the spec has it, fails: \<open>Stop\<close> does not attempt both closes. On an activated
  receiver whose control reader fails to close, the one call that \<open>Stop\<close> makes is that
  close; the media reader, which is there, is not closed.
\<close>

theorem Stop_skips_media_close_counterexample:
  "received activated = Closed \<and> closed activated = Open \<and>
   rtpReadStream activated = Some (LossyReadCloser (ReadStreamSRTP 1)) \<and>
   result (Stop activated close_fails) = Returned (Some (CollaboratorError 3)) \<and>
   calls (Stop activated close_fails) =
     [RtcpReadStreamClose (Some (LossyReadCloser (ReadStreamSRTCP 2)))]"
  by (simp add: model_defs demo_defs)

text \<open>
  C7, amended. On a receiver with \<open>received\<close> closed and \<open>closed\<close> still open, \<open>Stop\<close> calls
  \<open>close\<close> on the control reader first. If that returns an error, \<open>Stop\<close> returns it and
  has made no other call. If it succeeds, \<open>Stop\<close> calls \<open>close\<close> on the media reader; if
  that returns an error, \<open>Stop\<close> returns it. In both cases the receiver is left as it was,
  \<open>closed\<close> open, so that a later \<open>Stop\<close> goes through the closes again. If both succeed,
  \<open>Stop\<close> closes \<open>closed\<close>, writes no other field and returns success.
\<close>

theorem Stop_closes_control_then_media:
  "received r = Closed \<Longrightarrow> closed r = Open \<Longrightarrow>
   (lossy_close E (rtcpReadStream r) = Reply (Some e) \<longrightarrow>
      Stop r E = \<lparr>result = Returned (Some e), state = r,
                  calls = [RtcpReadStreamClose (rtcpReadStream r)]\<rparr>) \<and>
   (lossy_close E (rtcpReadStream r) = Reply None \<and>
    lossy_close E (rtpReadStream r) = Reply (Some e) \<longrightarrow>
      Stop r E = \<lparr>result = Returned (Some e), state = r,
                  calls = [RtcpReadStreamClose (rtcpReadStream r),
                           RtpReadStreamClose (rtpReadStream r)]\<rparr>) \<and>
   (lossy_close E (rtcpReadStream r) = Reply None \<and>
    lossy_close E (rtpReadStream r) = Reply None \<longrightarrow>
      Stop r E = \<lparr>result = Returned None, state = r\<lparr>closed := Closed\<rparr>,
                  calls = [RtcpReadStreamClose (rtcpReadStream r),
                           RtpReadStreamClose (rtpReadStream r)]\<rparr>)"
  by (simp add: Stop_def close_and_return_def ready_def close_chan_def Let_def)

theorem Stop_closes_control_then_media_witness:
  "received activated = Closed \<and> closed activated = Open \<and>
   lossy_close close_fails (rtcpReadStream activated) = Reply (Some (CollaboratorError 3)) \<and>
   Stop activated close_fails =
     \<lparr>result = Returned (Some (CollaboratorError 3)), state = activated,
      calls = [RtcpReadStreamClose (Some (LossyReadCloser (ReadStreamSRTCP 2)))]\<rparr> \<and>
   lossy_close media_close_fails (rtcpReadStream activated) = Reply None \<and>
   lossy_close media_close_fails (rtpReadStream activated) = Reply (Some (CollaboratorError 5)) \<and>
   Stop activated media_close_fails =
     \<lparr>result = Returned (Some (CollaboratorError 5)), state = activated,
      calls = [RtcpReadStreamClose (Some (LossyReadCloser (ReadStreamSRTCP 2))),
               RtpReadStreamClose (Some (LossyReadCloser (ReadStreamSRTP 1)))]\<rparr> \<and>
   lossy_close all_well (rtcpReadStream activated) = Reply None \<and>
   lossy_close all_well (rtpReadStream activated) = Reply None \<and>
   Stop activated all_well =
     \<lparr>result = Returned None, state = stopped,
      calls = [RtcpReadStreamClose (Some (LossyReadCloser (ReadStreamSRTCP 2))),
               RtpReadStreamClose (Some (LossyReadCloser (ReadStreamSRTP 1)))]\<rparr>"
  using Stop_closes_control_then_media [of activated close_fails "CollaboratorError 3"]
    Stop_closes_control_then_media [of activated media_close_fails "CollaboratorError 5"]
    Stop_closes_control_then_media [of activated all_well "CollaboratorError 5"]
  by (simp add: demo_defs)

text \<open>
  C8. On a receiver whose \<open>received\<close> is open (never activated), \<open>Stop\<close> returns success
  (it neither blocks nor panics), calls \<open>close\<close> on no reader, and leaves the receiver
  with \<open>closed\<close> closed and every other field as it was.
\<close>

theorem Stop_before_Receive:
  "received r = Open \<Longrightarrow>
   result (Stop r E) = Returned None \<and> calls (Stop r E) = [] \<and>
   state (Stop r E) = r\<lparr>closed := Closed\<rparr>"
  by (cases "closed r")
     (simp_all add: Stop_def close_and_return_def ready_def close_chan_def)

theorem Stop_before_Receive_witness:
  "received fresh = Open \<and>
   Stop fresh close_fails =
     \<lparr>result = Returned None, state = never_activated_stopped, calls = []\<rparr>"
  using Stop_before_Receive [of fresh close_fails]
  by (simp add: demo_defs)

text \<open>
  C10. \<open>Stop\<close> does not write the track: whatever the receiver and however the call ends
  (success, an error or a panic of a close, a repeated call), \<open>Track\<close> returns after the
  call what it returned before.
\<close>

theorem Stop_keeps_Track: "Track (state (Stop r E)) = Track r"
  by (simp add: Track_def Stop_keeps_track)

text \<open>At a \<open>Stop\<close> that succeeds, one that fails, and a repeated one.\<close>

theorem Stop_keeps_Track_witness:
  "Track (state (Stop activated all_well)) =
     Some \<lparr>track_kind = 1, track_ssrc = 12345, track_receiver = 0\<rparr> \<and>
   Track (state (Stop activated close_fails)) =
     Some \<lparr>track_kind = 1, track_ssrc = 12345, track_receiver = 0\<rparr> \<and>
   Track (state (Stop stopped all_well)) =
     Some \<lparr>track_kind = 1, track_ssrc = 12345, track_receiver = 0\<rparr> \<and>
   Track (state (Stop fresh all_well)) = None"
  using Stop_keeps_Track [of activated all_well] Stop_keeps_Track [of activated close_fails]
    Stop_keeps_Track [of stopped all_well] Stop_keeps_Track [of fresh all_well]
  by (simp add: Track_def demo_defs)

end
